theory Spec2Isabelle
  imports Main
begin

section \<open>Errors\<close>

text \<open>
  Go errors are values. \<open>Errorf p e\<close> stands for \<^verbatim>\<open>fmt.Errorf(p + "%s", e)\<close>: the message of
  \<open>e\<close> behind the prefix \<open>p\<close>. \<open>RedisNil\<close> is \<^verbatim>\<open>redis.Nil\<close>, the reply of the store for a
  key that does not exist; \<open>RedisError m\<close> is any other failed command (a network error or an
  error reply), with its message. \<open>ErrUnparsableJSON\<close> is the error value of the package
  \<^verbatim>\<open>collection\<close>, \<open>CorruptInputError\<close> the error of the base64 decoder (the offset it carries
  is not kept).
\<close>

datatype error =
    RedisNil
  | RedisError string
  | ParseError string
  | EncodeError string
  | ErrUnparsableJSON
  | CorruptInputError
  | Errorf string error

section \<open>Time\<close>

text \<open>
  An instant is a count of nanoseconds since the Unix epoch, in UTC; a \<^verbatim>\<open>time.Duration\<close> is a
  count of nanoseconds in an \<^verbatim>\<open>int64\<close>. \<^verbatim>\<open>Time.Sub\<close> saturates at the ends of the
  \<^verbatim>\<open>int64\<close> range, and \<^verbatim>\<open>time.Since(t)\<close> is \<^verbatim>\<open>time.Now().Sub(t)\<close>.
\<close>

definition maxDuration :: int where
  "maxDuration = 2 ^ 63 - 1"

definition minDuration :: int where
  "minDuration = - (2 ^ 63)"

definition time_Sub :: "int \<Rightarrow> int \<Rightarrow> int" where
  "time_Sub t u =
     (if t - u > maxDuration then maxDuration
      else if t - u < minDuration then minDuration
      else t - u)"

text \<open>The zero \<^verbatim>\<open>time.Time\<close>, January 1 of year 1, which \<^verbatim>\<open>time.Parse\<close> returns beside an error.\<close>

definition zeroTime :: int where
  "zeroTime = - 62135596800000000000"

text \<open>
  The layout \<^verbatim>\<open>time.RFC3339Nano\<close> belongs to Go's \<^verbatim>\<open>time\<close> package, not to the repository:
  the two functions \<^verbatim>\<open>t.Format(time.RFC3339Nano)\<close> and \<^verbatim>\<open>time.Parse(time.RFC3339Nano, s)\<close> are
  parameters of the model.
\<close>

record timelib =
  Format :: "int \<Rightarrow> string"
  Parse :: "string \<Rightarrow> error + int"

section \<open>The store\<close>

text \<open>
  A hash field holds the Go value that was handed to \<^verbatim>\<open>HSET\<close>; the bytes the client writes for
  it are private to the backend. \<open>HConsumer done nextAttemptAt\<close> is the state of one consumer
  of a pipe.
\<close>

datatype hvalue =
    HInt int
  | HTime int
  | HDuration int
  | HConsumer bool int

datatype rvalue =
    RString string
  | RList "string list"
  | RHash "string \<rightharpoonup> hvalue"

datatype command =
    WATCH "string list"
  | GET string
  | SET string string
  | LLEN string
  | RPUSH string string
  | HSET string string
  | HGET string string
  | DRAIN string string
  | KEYS string

text \<open>
  The client and the server behind it: the keys of the store, the faults the network will
  inject into the coming commands (one entry a command, \<open>None\<close> for a command that goes
  through; an empty list injects nothing), and the commands sent so far.
\<close>

record redis =
  kv :: "string \<rightharpoonup> rvalue"
  faults :: "error option list"
  history :: "command list"

definition WRONGTYPE :: error where
  "WRONGTYPE = RedisError ''WRONGTYPE Operation against a key holding the wrong kind of value''"

definition send :: "command \<Rightarrow> redis \<Rightarrow> error option \<times> redis" where
  "send c r =
     (case faults r of
        [] \<Rightarrow> (None, r\<lparr>history := history r @ [c]\<rparr>)
      | f # fs \<Rightarrow> (f, r\<lparr>faults := fs, history := history r @ [c]\<rparr>))"

definition Get :: "string \<Rightarrow> redis \<Rightarrow> (error + string) \<times> redis" where
  "Get k r =
     (case send (GET k) r of
        (Some e, r') \<Rightarrow> (Inl e, r')
      | (None, r') \<Rightarrow>
          (case kv r' k of
             None \<Rightarrow> (Inl RedisNil, r')
           | Some (RString s) \<Rightarrow> (Inr s, r')
           | Some _ \<Rightarrow> (Inl WRONGTYPE, r')))"

definition Set :: "string \<Rightarrow> string \<Rightarrow> redis \<Rightarrow> error option \<times> redis" where
  "Set k v r =
     (case send (SET k v) r of
        (Some e, r') \<Rightarrow> (Some e, r')
      | (None, r') \<Rightarrow> (None, r'\<lparr>kv := (kv r')(k \<mapsto> RString v)\<rparr>))"

definition LLen :: "string \<Rightarrow> redis \<Rightarrow> (error + int) \<times> redis" where
  "LLen k r =
     (case send (LLEN k) r of
        (Some e, r') \<Rightarrow> (Inl e, r')
      | (None, r') \<Rightarrow>
          (case kv r' k of
             None \<Rightarrow> (Inr 0, r')
           | Some (RList xs) \<Rightarrow> (Inr (int (length xs)), r')
           | Some _ \<Rightarrow> (Inl WRONGTYPE, r')))"

definition RPush :: "string \<Rightarrow> string \<Rightarrow> redis \<Rightarrow> (error + int) \<times> redis" where
  "RPush k v r =
     (case send (RPUSH k v) r of
        (Some e, r') \<Rightarrow> (Inl e, r')
      | (None, r') \<Rightarrow>
          (case kv r' k of
             None \<Rightarrow> (Inr 1, r'\<lparr>kv := (kv r')(k \<mapsto> RList [v])\<rparr>)
           | Some (RList xs) \<Rightarrow>
               (Inr (int (length xs) + 1), r'\<lparr>kv := (kv r')(k \<mapsto> RList (xs @ [v]))\<rparr>)
           | Some _ \<Rightarrow> (Inl WRONGTYPE, r')))"

definition HSet :: "string \<Rightarrow> string \<Rightarrow> hvalue \<Rightarrow> redis \<Rightarrow> error option \<times> redis" where
  "HSet k f v r =
     (case send (HSET k f) r of
        (Some e, r') \<Rightarrow> (Some e, r')
      | (None, r') \<Rightarrow>
          (case kv r' k of
             None \<Rightarrow> (None, r'\<lparr>kv := (kv r')(k \<mapsto> RHash [f \<mapsto> v])\<rparr>)
           | Some (RHash h) \<Rightarrow> (None, r'\<lparr>kv := (kv r')(k \<mapsto> RHash (h(f \<mapsto> v)))\<rparr>)
           | Some _ \<Rightarrow> (Some WRONGTYPE, r')))"

definition HGet :: "string \<Rightarrow> string \<Rightarrow> redis \<Rightarrow> (error + hvalue) \<times> redis" where
  "HGet k f r =
     (case send (HGET k f) r of
        (Some e, r') \<Rightarrow> (Inl e, r')
      | (None, r') \<Rightarrow>
          (case kv r' k of
             None \<Rightarrow> (Inl RedisNil, r')
           | Some (RHash h) \<Rightarrow>
               (case h f of None \<Rightarrow> (Inl RedisNil, r') | Some v \<Rightarrow> (Inr v, r'))
           | Some _ \<Rightarrow> (Inl WRONGTYPE, r')))"

text \<open>
  \<^verbatim>\<open>Client.Watch(fn, keys...)\<close> of the client library: it sends \<^verbatim>\<open>WATCH\<close> for the keys, when
  there are any, runs \<open>fn\<close> once on the connection and returns its error. The commands
  of \<open>fn\<close> run as they are issued. On its way out the library closes the connection with
  an \<^verbatim>\<open>UNWATCH\<close> whose outcome it drops; the trace does not record it.
\<close>

definition Watch ::
  "('s \<times> redis \<Rightarrow> error option \<times> 's \<times> redis) \<Rightarrow> string list \<Rightarrow> 's \<times> redis
     \<Rightarrow> error option \<times> 's \<times> redis" where
  "Watch fn keys sr =
     (case sr of (s, r) \<Rightarrow>
        (if keys \<noteq> [] then
           (case send (WATCH keys) r of
              (Some e, r') \<Rightarrow> (Some e, s, r')
            | (None, r') \<Rightarrow> fn (s, r'))
         else fn (s, r)))"

text \<open>
  Modelled from the spec: \<^verbatim>\<open>DrainListInto(srcKey, dstKey)\<close> of the store adapter is not among
  the sources. It moves the elements of the list at \<open>src\<close> to the end of the list at
  \<open>dst\<close>, in order, and removes \<open>src\<close>.
\<close>

definition DrainListInto :: "string \<Rightarrow> string \<Rightarrow> redis \<Rightarrow> error option \<times> redis" where
  "DrainListInto src dst r =
     (case send (DRAIN src dst) r of
        (Some e, r') \<Rightarrow> (Some e, r')
      | (None, r') \<Rightarrow>
          (case kv r' src of
             None \<Rightarrow> (None, r')
           | Some (RList xs) \<Rightarrow>
               (case kv r' dst of
                  None \<Rightarrow> (None, r'\<lparr>kv := (kv r')(dst \<mapsto> RList xs, src := None)\<rparr>)
                | Some (RList ys) \<Rightarrow>
                    (None, r'\<lparr>kv := (kv r')(dst \<mapsto> RList (ys @ xs), src := None)\<rparr>)
                | Some _ \<Rightarrow> (Some WRONGTYPE, r'))
           | Some _ \<Rightarrow> (Some WRONGTYPE, r')))"

fun HSetAll :: "string \<Rightarrow> (string \<times> hvalue) list \<Rightarrow> redis \<Rightarrow> error option \<times> redis" where
  "HSetAll k [] r = (None, r)"
| "HSetAll k ((f, v) # fvs) r =
     (case HSet k f v r of
        (Some e, r') \<Rightarrow> (Some e, r')
      | (None, r') \<Rightarrow> HSetAll k fvs r')"

section \<open>The buffer of a collection\<close>

text \<open>
  The package \<^verbatim>\<open>collection\<close> declares \<^verbatim>\<open>Collection\<close>; of its fields the buffer reads the
  name and the two periods. Of the consumers only the keys of the map matter here.
\<close>

record Collection =
  Name :: string
  FlushPeriod :: int
  RetentionPeriod :: int

record redisBuffer =
  collection :: Collection
  consumers :: "string list"
  bufferKey :: string
  timeKey :: string
  pipeKeyPrefix :: string
  flushedAt :: int

text \<open>
  Modelled from the spec: \<^verbatim>\<open>redisConveyAll\<close> is not among the sources. On start it
  enumerates the pipe keys under the prefix and spawns a convey loop for each; the loops run
  beside the caller, and the call itself writes nothing.
\<close>

definition redisConveyAll :: "redis \<Rightarrow> string \<Rightarrow> string list \<Rightarrow> redis" where
  "redisConveyAll r keyPrefix cs = snd (send (KEYS (keyPrefix @ ''*'')) r)"

text \<open>The constructor; \<open>now\<close> is the reading of \<^verbatim>\<open>time.Now().UTC()\<close>.\<close>

definition RedisBuffer :: "Collection \<Rightarrow> string list \<Rightarrow> int \<Rightarrow> redis \<Rightarrow> redisBuffer \<times> redis" where
  "RedisBuffer collec cs now r =
     (let rbuffer = \<lparr>collection = collec,
                     consumers = cs,
                     bufferKey = ''bulklog.'' @ Name collec @ ''.buffer'',
                     timeKey = ''bulklog.'' @ Name collec @ ''.flushedAt'',
                     pipeKeyPrefix = ''bulklog.'' @ Name collec @ ''.pipes'',
                     flushedAt = now\<rparr>
      in (rbuffer, redisConveyAll r (pipeKeyPrefix rbuffer) (consumers rbuffer)))"

text \<open>
  Modelled from the spec: \<^verbatim>\<open>newRedisPipe\<close> is not among the sources. It creates the
  metadata hash of the pipe at \<open>pipeKey\<close>, with the fields \<open>iteration\<close> (0), \<open>startedAt\<close>,
  \<open>flushPeriod\<close> and \<open>retentionPeriod\<close>.
\<close>

definition newRedisPipe :: "redis \<Rightarrow> string \<Rightarrow> int \<Rightarrow> int \<Rightarrow> int \<Rightarrow> error option \<times> redis" where
  "newRedisPipe tx pipeKey flushPeriod retentionPeriod startedAt =
     HSetAll pipeKey
       [(''iteration'', HInt 0),
        (''startedAt'', HTime startedAt),
        (''flushPeriod'', HDuration flushPeriod),
        (''retentionPeriod'', HDuration retentionPeriod)] tx"

text \<open>
  Modelled from the spec: \<^verbatim>\<open>addRedisPipeConsumers\<close> is not among the sources. It creates the
  consumer hash at \<open>pipeKey.consumers\<close>, one field for each consumer key, holding
  \<open>{done: false, nextAttemptAt: startedAt + flushPeriod}\<close>. The call passes neither the time
  nor the period: the pipe describes itself, and both are read from its metadata.
\<close>

definition addRedisPipeConsumers :: "redis \<Rightarrow> string \<Rightarrow> string list \<Rightarrow> error option \<times> redis" where
  "addRedisPipeConsumers tx pipeKey cs =
     (case HGet pipeKey ''startedAt'' tx of
        (Inl e, tx1) \<Rightarrow> (Some e, tx1)
      | (Inr (HTime startedAt), tx1) \<Rightarrow>
          (case HGet pipeKey ''flushPeriod'' tx1 of
             (Inl e, tx2) \<Rightarrow> (Some e, tx2)
           | (Inr (HDuration flushPeriod), tx2) \<Rightarrow>
               HSetAll (pipeKey @ ''.consumers'')
                 (map (\<lambda>c. (c, HConsumer False (startedAt + flushPeriod))) cs) tx2
           | (Inr _, tx2) \<Rightarrow> (Some (ParseError ''flushPeriod''), tx2))
      | (Inr _, tx1) \<Rightarrow> (Some (ParseError ''startedAt''), tx1))"

text \<open>
  Modelled from the spec: \<^verbatim>\<open>flushBuffer2RedisPipe\<close> is not among the sources. It moves all
  the buffered documents into the sealed list of the pipe, at \<open>pipeKey.buffer\<close>, and clears
  the buffer list.
\<close>

definition flushBuffer2RedisPipe :: "redis \<Rightarrow> string \<Rightarrow> string \<Rightarrow> error option \<times> redis" where
  "flushBuffer2RedisPipe tx bufKey pipeKey = DrainListInto bufKey (pipeKey @ ''.buffer'') tx"

text \<open>
  What one call of \<^verbatim>\<open>Flush\<close> reads from its environment, in the order of the source: the
  clock (\<open>now\<close>), a fresh identifier (the outer \<open>pipeID\<close>), the clock again inside
  \<^verbatim>\<open>time.Since\<close>, and a second fresh identifier (the \<open>pipeID\<close> declared in the transaction).
  An identifier is kept as the text \<^verbatim>\<open>%s\<close> prints for it.
\<close>

record flush_env =
  clock_now :: int
  uuid_outer :: string
  clock_since :: int
  uuid_inner :: string

text \<open>
  The tail of the transaction, from the second \<^verbatim>\<open>uuid.New()\<close> on. The convey loop that
  \<^verbatim>\<open>go presetRedisConvey(...)\<close> starts runs beside the caller and is no part of the state
  that \<^verbatim>\<open>Flush\<close> returns.
\<close>

definition Flush_seal ::
  "timelib \<Rightarrow> flush_env \<Rightarrow> redisBuffer \<times> redis \<Rightarrow> error option \<times> redisBuffer \<times> redis" where
  "Flush_seal L env br =
     (case br of (b, tx) \<Rightarrow>
       (let now = clock_now env;
            pipeID = uuid_inner env;
            pipeKey = pipeKeyPrefix b @ ''.'' @ pipeID
        in
         (case newRedisPipe tx pipeKey (FlushPeriod (collection b))
                 (RetentionPeriod (collection b)) now of
            (Some e, tx1) \<Rightarrow> (Some (Errorf ''newRedisPipe.'' e), b, tx1)
          | (None, tx1) \<Rightarrow>
         (case addRedisPipeConsumers tx1 pipeKey (consumers b) of
            (Some e, tx2) \<Rightarrow> (Some (Errorf ''addRedisPipeConsumers.'' e), b, tx2)
          | (None, tx2) \<Rightarrow>
         (case flushBuffer2RedisPipe tx2 (bufferKey b) pipeKey of
            (Some e, tx3) \<Rightarrow> (Some (Errorf ''flushBuffer2RedisPipe.'' e), b, tx3)
          | (None, tx3) \<Rightarrow>
         (case Set (timeKey b) (Format L now) tx3 of
            (Some e, tx4) \<Rightarrow>
              (Some (Errorf (''(SET collection.flushedAt '' @ Format L now @ '').'') e), b, tx4)
          | (None, tx4) \<Rightarrow> (None, b\<lparr>flushedAt := now\<rparr>, tx4)))))))"

text \<open>
  The read of the time key at the head of the transaction: a stored text that is not empty
  replaces the field \<open>flushedAt\<close> of the buffer by what it parses to (by the zero time when
  it does not parse).
\<close>

definition Flush_read ::
  "timelib \<Rightarrow> redisBuffer \<Rightarrow> string \<Rightarrow> error option \<times> redisBuffer" where
  "Flush_read L b flushedAtStr =
     (if flushedAtStr \<noteq> [] then
        (case Parse L flushedAtStr of
           Inl e \<Rightarrow> (Some (Errorf ''parseFlushedAtStr.'' e), b\<lparr>flushedAt := zeroTime\<rparr>)
         | Inr t \<Rightarrow> (None, b\<lparr>flushedAt := t\<rparr>))
      else (None, b))"

text \<open>The function handed to \<^verbatim>\<open>Watch\<close>.\<close>

definition Flush_tx ::
  "timelib \<Rightarrow> flush_env \<Rightarrow> redisBuffer \<times> redis \<Rightarrow> error option \<times> redisBuffer \<times> redis" where
  "Flush_tx L env br =
     (case br of (b, tx) \<Rightarrow>
       (let now = clock_now env in
         (case Get (timeKey b) tx of
            (Inl e, tx1) \<Rightarrow> (Some (Errorf ''(GET collection.flushedAt).'' e), b, tx1)
          | (Inr flushedAtStr, tx1) \<Rightarrow>
         (case Flush_read L b flushedAtStr of
            (Some e, b1) \<Rightarrow> (Some e, b1, tx1)
          | (None, b1) \<Rightarrow>
         (if time_Sub (clock_since env) (flushedAt b1) < FlushPeriod (collection b1)
          then (None, b1, tx1)
          else
         (case LLen (bufferKey b1) tx1 of
            (Inl e, tx2) \<Rightarrow> (Some (Errorf ''(LLEN bufferKey).'' e), b1, tx2)
          | (Inr len, tx2) \<Rightarrow>
         (if len = 0 then
            (case Set (timeKey b1) (Format L now) tx2 of
               (Some e, tx3) \<Rightarrow>
                 (Some (Errorf (''(SET collection.flushedAt '' @ Format L now @ '').'') e),
                  b1, tx3)
             | (None, tx3) \<Rightarrow> (None, b1\<lparr>flushedAt := now\<rparr>, tx3))
          else Flush_seal L env (b1, tx2))))))))"

text \<open>The keys handed to \<^verbatim>\<open>Watch\<close>, built from the outer \<open>pipeID\<close>.\<close>

definition Flush_watched :: "flush_env \<Rightarrow> redisBuffer \<Rightarrow> string list" where
  "Flush_watched env b =
     (let pipeID = uuid_outer env;
          pipeKey = pipeKeyPrefix b @ ''.'' @ pipeID;
          pipeConsumersKey = pipeKey @ ''.consumers'';
          pipeBufferKey = pipeKey @ ''.buffer''
      in [bufferKey b, timeKey b, pipeKey, pipeConsumersKey, pipeBufferKey])"

definition Flush ::
  "timelib \<Rightarrow> flush_env \<Rightarrow> redisBuffer \<times> redis \<Rightarrow> error option \<times> redisBuffer \<times> redis" where
  "Flush L env br =
     (case Watch (Flush_tx L env) (Flush_watched env (fst br)) br of
        (Some e, b', r') \<Rightarrow> (Some (Errorf ''WATCH.'' e), b', r')
      | (None, b', r') \<Rightarrow> (None, b', r'))"

section \<open>Documents\<close>

text \<open>
  The struct \<^verbatim>\<open>Document\<close>. The identifier is kept as the text of the UUID, the time as an
  instant, the body as its bytes.
\<close>

record Document =
  ID :: string
  PostedAt :: int
  CollectionName :: string
  SchemaName :: string
  Body :: string

text \<open>
  \<^verbatim>\<open>json.Unmarshal\<close> into a \<^verbatim>\<open>map[string]interface{}\<close> and \<^verbatim>\<open>json.Marshal\<close> of such a map
  belong to Go's \<^verbatim>\<open>encoding/json\<close>: they are parameters of the model. A decoded map is
  \<open>None\<close> for the \<^verbatim>\<open>nil\<close> map and \<open>Some m\<close> otherwise; \<open>'v\<close> is the type of the decoded
  values.
\<close>

record 'v jsonlib =
  Unmarshal :: "string \<Rightarrow> error + (string \<rightharpoonup> 'v) option"
  Marshal :: "(string \<rightharpoonup> 'v) option \<Rightarrow> error + string"

text \<open>
  What one call of \<^verbatim>\<open>NewDocument\<close> reads from its environment: the clock and a fresh
  identifier.
\<close>

record doc_env =
  clock :: int
  uuid :: string

definition NewDocument ::
  "'v jsonlib \<Rightarrow> doc_env \<Rightarrow> string \<Rightarrow> string \<Rightarrow> string \<Rightarrow> error + Document" where
  "NewDocument J env collectionName schemaName body =
     (case Unmarshal J body of
        Inl err \<Rightarrow> Inl ErrUnparsableJSON
      | Inr bodyMap \<Rightarrow>
          (let postedAt = clock env in
            (case Marshal J bodyMap of
               Inl err \<Rightarrow> Inl ErrUnparsableJSON
             | Inr body' \<Rightarrow>
                 Inr \<lparr>ID = uuid env,
                      PostedAt = postedAt,
                      CollectionName = collectionName,
                      SchemaName = schemaName,
                      Body = body'\<rparr>)))"

section \<open>Appending to the buffer\<close>

text \<open>
  \<^verbatim>\<open>base64.StdEncoding.EncodeToString\<close>: every three bytes give four characters of the
  standard alphabet, and a last group of one or two bytes is padded with \<^verbatim>\<open>=\<close>.
\<close>

definition encodeStd :: string where
  "encodeStd = ''ABCDEFGHIJKLMNOPQRSTUVWXYZabcdefghijklmnopqrstuvwxyz0123456789+/''"

definition enc :: "nat \<Rightarrow> char" where
  "enc i = encodeStd ! i"

fun EncodeToString :: "string \<Rightarrow> string" where
  "EncodeToString (a # b # c # src) =
     (let val = of_char a * 65536 + of_char b * 256 + of_char c :: nat
      in enc (val div 262144 mod 64) # enc (val div 4096 mod 64) #
         enc (val div 64 mod 64) # enc (val mod 64) # EncodeToString src)"
| "EncodeToString [a, b] =
     (let val = of_char a * 65536 + of_char b * 256 :: nat
      in [enc (val div 262144 mod 64), enc (val div 4096 mod 64),
          enc (val div 64 mod 64), CHR ''=''])"
| "EncodeToString [a] =
     (let val = of_char a * 65536 :: nat
      in [enc (val div 262144 mod 64), enc (val div 4096 mod 64), CHR ''='', CHR ''=''])"
| "EncodeToString [] = []"

text \<open>
  \<^verbatim>\<open>Append\<close>. The encoder \<^verbatim>\<open>gob.NewEncoder(&buf).Encode(*doc)\<close> belongs to Go's
  \<^verbatim>\<open>encoding/gob\<close>: \<open>gobEncode\<close>, from a document to its bytes or an error, is a parameter.
\<close>

definition Append ::
  "(Document \<Rightarrow> error + string) \<Rightarrow> Document \<Rightarrow> redisBuffer \<times> redis \<Rightarrow> error option \<times> redis" where
  "Append gobEncode doc br =
     (case br of (b, r) \<Rightarrow>
       (case gobEncode doc of
          Inl err \<Rightarrow> (Some err, r)
        | Inr buf \<Rightarrow>
            (let docBase64 = EncodeToString buf in
              (case RPush (bufferKey b) docBase64 r of
                 (Inl err, r') \<Rightarrow>
                   (Some (Errorf ''(RPUSH collection.buffer docBase64).'' err), r')
               | (Inr n, r') \<Rightarrow> (None, r')))))"

text \<open>
  A producer that appends the documents of a list one after the other and stops at the
  first error.
\<close>

fun Appends ::
  "(Document \<Rightarrow> error + string) \<Rightarrow> Document list \<Rightarrow> redisBuffer \<times> redis \<Rightarrow> error option \<times> redis" where
  "Appends gobEncode [] br = (None, snd br)"
| "Appends gobEncode (doc # docs) br =
     (case Append gobEncode doc br of
        (Some err, r') \<Rightarrow> (Some err, r')
      | (None, r') \<Rightarrow> Appends gobEncode docs (fst br, r'))"

text \<open>The elements of the list at a key; a key that does not exist is the empty list.\<close>

definition elements :: "redis \<Rightarrow> string \<Rightarrow> string list" where
  "elements r k = (case kv r k of Some (RList xs) \<Rightarrow> xs | _ \<Rightarrow> [])"

text \<open>The element that \<^verbatim>\<open>Append\<close> pushes for a document that the encoder accepts.\<close>

definition encoded :: "(Document \<Rightarrow> error + string) \<Rightarrow> Document \<Rightarrow> string" where
  "encoded gobEncode doc = (case gobEncode doc of Inr buf \<Rightarrow> EncodeToString buf | Inl err \<Rightarrow> [])"







text \<open>The number of \<^verbatim>\<open>WATCH\<close> commands in a trace: the attempts at a transaction.\<close>

fun watches :: "command list \<Rightarrow> nat" where
  "watches [] = 0"
| "watches (WATCH ks # cs) = Suc (watches cs)"
| "watches (c # cs) = watches cs"

section \<open>A concrete setting\<close>

text \<open>
  A sample of the layout \<^verbatim>\<open>time.RFC3339Nano\<close>: four instants of 1 March 2019, in nanoseconds
  since the Unix epoch, beside the texts that \<^verbatim>\<open>Format\<close> prints for them in UTC and that
  \<^verbatim>\<open>Parse\<close> reads back. Nothing is said about any other instant or text.
\<close>

definition noon :: int where
  "noon = 1551441600000000000"

definition rfc3339Nano :: "(int \<times> string) list" where
  "rfc3339Nano =
     [(noon, ''2019-03-01T12:00:00Z''),
      (noon + 500000000, ''2019-03-01T12:00:00.5Z''),
      (noon + 1000000000, ''2019-03-01T12:00:01Z''),
      (noon + 1600000000, ''2019-03-01T12:00:01.6Z'')]"

definition sampleTime :: timelib where
  "sampleTime =
     \<lparr>Format = (\<lambda>t. case map_of rfc3339Nano t of Some s \<Rightarrow> s | None \<Rightarrow> undefined),
      Parse = (\<lambda>s. case map_of (map (\<lambda>(t, s). (s, t)) rfc3339Nano) s of
                       Some t \<Rightarrow> Inr t
                     | None \<Rightarrow> undefined)\<rparr>"

text \<open>
  A collection that is flushed every second, with two consumers, and its buffer, built at
  noon on a store that holds nothing.
\<close>

definition logs :: Collection where
  "logs = \<lparr>Name = ''logs'', FlushPeriod = 1000000000, RetentionPeriod = 10000000000\<rparr>"

definition emptyStore :: redis where
  "emptyStore = \<lparr>kv = Map.empty, faults = [], history = []\<rparr>"

definition logsBuffer :: redisBuffer where
  "logsBuffer = fst (RedisBuffer logs [''es'', ''s3''] noon emptyStore)"

text \<open>
  A store that holds the time key of \<open>logs\<close> with the text \<open>t\<close> and, when there are any, the
  buffered documents \<open>docs\<close>; \<open>fs\<close> are the faults to come.
\<close>

definition logsStore :: "string \<Rightarrow> string list \<Rightarrow> error option list \<Rightarrow> redis" where
  "logsStore t docs fs =
     \<lparr>kv = (if docs = [] then [''bulklog.logs.flushedAt'' \<mapsto> RString t]
            else [''bulklog.logs.flushedAt'' \<mapsto> RString t,
                  ''bulklog.logs.buffer'' \<mapsto> RList docs]),
      faults = fs,
      history = []\<rparr>"

text \<open>The readings of one call: the clock at \<open>now\<close>, then at \<open>since\<close>, and two identifiers.\<close>

definition readings :: "int \<Rightarrow> int \<Rightarrow> flush_env" where
  "readings now since =
     \<lparr>clock_now = now,
      uuid_outer = ''6ba7b810-9dad-41d1-80b4-00c04fd430c8'',
      clock_since = since,
      uuid_inner = ''f47ac10b-58cc-4372-a567-0e02b2c3d479''\<rparr>"

text \<open>
  A sample of \<^verbatim>\<open>encoding/json\<close>: the text \<^verbatim>\<open>null\<close> decodes into the \<^verbatim>\<open>nil\<close> map without
  an error, and the \<^verbatim>\<open>nil\<close> map is encoded as \<^verbatim>\<open>null\<close>; an object of one text member decodes
  into a map of one key, which is encoded without spaces. Nothing is said about any other
  text or map.
\<close>

definition sampleJSON :: "string jsonlib" where
  \<open>sampleJSON =
     \<lparr>Unmarshal = (\<lambda>s. if s = ''null'' then Inr None
                         else if s = ''{ "msg" : "hi" }'' \<or> s = ''{"msg":"hi"}''
                         then Inr (Some [''msg'' \<mapsto> ''hi''])
                         else undefined),
      Marshal = (\<lambda>m. if m = None then Inr ''null''
                       else if m = Some [''msg'' \<mapsto> ''hi''] then Inr ''{"msg":"hi"}''
                       else undefined)\<rparr>\<close>

definition sampleDocEnv :: doc_env where
  "sampleDocEnv = \<lparr>clock = noon, uuid = ''9f1c2d3e-4b5a-4c6d-8e7f-0a1b2c3d4e5f''\<rparr>"

text \<open>
  Two calls of \<^verbatim>\<open>Flush\<close> on a store whose time key holds noon and whose buffer list is
  empty. The first reads the clock at one second past noon and again 0.4 seconds later;
  the second follows on its result and reads the clock at 1.6 and at 2 seconds past noon.
\<close>

definition firstTick :: "error option \<times> redisBuffer \<times> redis" where
  "firstTick =
     Flush sampleTime (readings (noon + 1000000000) (noon + 1400000000))
       (logsBuffer, logsStore ''2019-03-01T12:00:00Z'' [] [])"

definition secondTick :: "error option \<times> redisBuffer \<times> redis" where
  "secondTick =
     Flush sampleTime (readings (noon + 1600000000) (noon + 2000000000)) (snd firstTick)"

text \<open>
  A call of \<^verbatim>\<open>Flush\<close> one second past noon on a store whose time key holds noon and whose
  buffer list holds two documents.
\<close>

definition sealTick :: "error option \<times> redisBuffer \<times> redis" where
  "sealTick =
     Flush sampleTime (readings (noon + 1000000000) (noon + 1000000000))
       (logsBuffer, logsStore ''2019-03-01T12:00:00Z'' [''Zm9v'', ''YmFy''] [])"


text \<open>
  Two documents of the collection, and an encoder that accepts every document; which bytes
  it writes for a document is left open.
\<close>

definition hiDoc :: Document where
  \<open>hiDoc =
     \<lparr>ID = ''9f1c2d3e-4b5a-4c6d-8e7f-0a1b2c3d4e5f'', PostedAt = noon,
      CollectionName = ''logs'', SchemaName = ''event'', Body = ''{"msg":"hi"}''\<rparr>\<close>

definition byeDoc :: Document where
  \<open>byeDoc =
     \<lparr>ID = ''0e4d8c2a-7b61-4f39-9a5c-1d2e3f4a5b6c'', PostedAt = noon + 500000000,
      CollectionName = ''logs'', SchemaName = ''event'', Body = ''{"msg":"bye"}''\<rparr>\<close>

definition sampleGob :: "Document \<Rightarrow> error + string" where
  "sampleGob doc = Inr (undefined doc)"


section \<open>Properties of the store\<close>

lemma send_kv [simp]: "kv (snd (send c r)) = kv r"
  by (simp add: send_def split: list.splits)

lemma send_ok: "faults r = [] \<Longrightarrow> send c r = (None, r\<lparr>history := history r @ [c]\<rparr>)"
  by (simp add: send_def)

lemma Set_ok:
  "faults r = [] \<Longrightarrow>
   Set k v r = (None, r\<lparr>history := history r @ [SET k v], kv := (kv r)(k \<mapsto> RString v)\<rparr>)"
  by (simp add: Set_def send_ok)

section \<open>The concrete setting, evaluated\<close>

lemma logsBuffer_eq:
  "logsBuffer =
     \<lparr>collection = logs, consumers = [''es'', ''s3''],
      bufferKey = ''bulklog.logs.buffer'', timeKey = ''bulklog.logs.flushedAt'',
      pipeKeyPrefix = ''bulklog.logs.pipes'', flushedAt = noon\<rparr>"
  by (simp add: logsBuffer_def RedisBuffer_def Let_def logs_def)

lemma Format_sampleTime:
  "Format sampleTime (noon + 1000000000) = ''2019-03-01T12:00:01Z''"
  "Format sampleTime (noon + 1600000000) = ''2019-03-01T12:00:01.6Z''"
  by (simp_all add: sampleTime_def rfc3339Nano_def noon_def)

lemma Parse_sampleTime:
  "Parse sampleTime ''2019-03-01T12:00:00Z'' = Inr noon"
  "Parse sampleTime ''2019-03-01T12:00:01Z'' = Inr (noon + 1000000000)"
  by (simp_all add: sampleTime_def rfc3339Nano_def)

lemma Flush_watched_logs:
  "Flush_watched (readings now since) logsBuffer =
     [''bulklog.logs.buffer'', ''bulklog.logs.flushedAt'',
      ''bulklog.logs.pipes.6ba7b810-9dad-41d1-80b4-00c04fd430c8'',
      ''bulklog.logs.pipes.6ba7b810-9dad-41d1-80b4-00c04fd430c8.consumers'',
      ''bulklog.logs.pipes.6ba7b810-9dad-41d1-80b4-00c04fd430c8.buffer'']"
  by (simp add: Flush_watched_def readings_def logsBuffer_eq Let_def)

section \<open>Flush: the time key and the period\<close>

text \<open>
  C5: the constructor leaves every key of the store as it was and keeps the time of its call
  only in the field \<open>flushedAt\<close> of the buffer; and when the store has no time key, \<open>Flush\<close>
  returns an error and every key of the store is as before: no pipe, the buffer list and the
  time key untouched.
\<close>

theorem Flush_time_key_absent:
  "kv (snd (RedisBuffer collec cs t r)) = kv r \<and>
   flushedAt (fst (RedisBuffer collec cs t r)) = t \<and>
   (kv r (timeKey b) = None \<longrightarrow>
      (\<exists>e. fst (Flush L env (b, r)) = Some e) \<and>
      kv (snd (snd (Flush L env (b, r)))) = kv r)"
proof (intro conjI impI)
  show "kv (snd (RedisBuffer collec cs t r)) = kv r"
    by (simp add: RedisBuffer_def Let_def redisConveyAll_def)
  show "flushedAt (fst (RedisBuffer collec cs t r)) = t"
    by (simp add: RedisBuffer_def Let_def)
next
  assume absent: "kv r (timeKey b) = None"
  then show "\<exists>e. fst (Flush L env (b, r)) = Some e"
    by (auto simp: Flush_def Watch_def Flush_watched_def Flush_tx_def Get_def send_def Let_def
        split: list.splits option.splits)
  from absent show "kv (snd (snd (Flush L env (b, r)))) = kv r"
    by (auto simp: Flush_def Watch_def Flush_watched_def Flush_tx_def Get_def send_def Let_def
        split: list.splits option.splits)
qed

theorem Flush_time_key_absent_witness:
  "kv emptyStore (timeKey logsBuffer) = None \<and>
   fst (Flush sampleTime (readings (noon + 1000000000) (noon + 1000000000))
          (logsBuffer, emptyStore)) =
     Some (Errorf ''WATCH.'' (Errorf ''(GET collection.flushedAt).'' RedisNil)) \<and>
   kv (snd (snd (Flush sampleTime (readings (noon + 1000000000) (noon + 1000000000))
                   (logsBuffer, emptyStore)))) =
     kv emptyStore"
  using Flush_time_key_absent [where r = emptyStore and b = logsBuffer and L = sampleTime
      and env = "readings (noon + 1000000000) (noon + 1000000000)"]
  by (simp add: emptyStore_def logsBuffer_eq Flush_def Watch_def Flush_watched_def Flush_tx_def
      Get_def send_def Let_def)

text \<open>
  What the empty-buffer branch does when the store does hold a time key: with no failing
  command and the period passed, the field and the time key are set to \<open>now\<close> and no other
  key changes.
\<close>

lemma Flush_empty_buffer_stored:
  assumes "faults r = []"
    and "kv r (timeKey b) = Some (RString s)"
    and "s = [] \<and> t = flushedAt b \<or> s \<noteq> [] \<and> Parse L s = Inr t"
    and "FlushPeriod (collection b) \<le> time_Sub (clock_since env) t"
    and "kv r (bufferKey b) = None \<or> kv r (bufferKey b) = Some (RList [])"
  shows "fst (Flush L env (b, r)) = None \<and>
         flushedAt (fst (snd (Flush L env (b, r)))) = clock_now env \<and>
         kv (snd (snd (Flush L env (b, r)))) =
           (kv r)(timeKey b \<mapsto> RString (Format L (clock_now env)))"
  using assms
  by (auto simp: Flush_def Watch_def Flush_watched_def Flush_tx_def Flush_read_def Get_def
      LLen_def Set_def send_ok Let_def)

text \<open>
  C6, at the empty-buffer tick of a collection that was just built: the store is empty, the
  buffer was built at noon, no document was appended, and \<open>Flush\<close> runs one second later,
  with the period of one second passed and the buffer list empty. The call returns the
  error of the \<^verbatim>\<open>GET\<close> (\<^verbatim>\<open>redis.Nil\<close>, wrapped), the field \<open>flushedAt\<close> stays at noon and the
  store still has no time key: the time is not advanced.
\<close>

theorem Flush_empty_buffer_fresh_store:
  "FlushPeriod (collection logsBuffer) \<le>
     time_Sub (clock_since (readings (noon + 1000000000) (noon + 1000000000)))
       (flushedAt logsBuffer) \<and>
   elements emptyStore (bufferKey logsBuffer) = [] \<and>
   fst (Flush sampleTime (readings (noon + 1000000000) (noon + 1000000000))
          (logsBuffer, emptyStore)) =
     Some (Errorf ''WATCH.'' (Errorf ''(GET collection.flushedAt).'' RedisNil)) \<and>
   flushedAt (fst (snd (Flush sampleTime (readings (noon + 1000000000) (noon + 1000000000))
                          (logsBuffer, emptyStore)))) = noon \<and>
   kv (snd (snd (Flush sampleTime (readings (noon + 1000000000) (noon + 1000000000))
                   (logsBuffer, emptyStore)))) (timeKey logsBuffer) = None \<and>
   history (snd (snd (Flush sampleTime (readings (noon + 1000000000) (noon + 1000000000))
                   (logsBuffer, emptyStore)))) =
     [WATCH (Flush_watched (readings (noon + 1000000000) (noon + 1000000000)) logsBuffer),
      GET ''bulklog.logs.flushedAt'']"
  by (simp add: emptyStore_def logsBuffer_eq Flush_def Watch_def Flush_watched_def Flush_tx_def
      Get_def send_def Let_def readings_def logs_def elements_def time_Sub_def
      maxDuration_def minDuration_def)

text \<open>
  C7, as amended. When no command fails and the time key holds a text that is empty (then
  \<open>t\<close> is the field of the buffer) or parses to \<open>t\<close>: if less than the period lies between
  \<open>t\<close> and the clock as \<^verbatim>\<open>time.Since\<close> reads it, \<open>Flush\<close> returns no error and leaves every
  key of the store as it was; and a call that changes the store was made with the period
  passed at that reading, so that the time \<open>now\<close> it stores follows \<open>t\<close> by at least the
  period less the time between its two readings of the clock.
\<close>

theorem Flush_before_period:
  assumes "faults r = []"
    and "kv r (timeKey b) = Some (RString s)"
    and "s = [] \<and> t = flushedAt b \<or> s \<noteq> [] \<and> Parse L s = Inr t"
  shows "(time_Sub (clock_since env) t < FlushPeriod (collection b) \<longrightarrow>
            fst (Flush L env (b, r)) = None \<and>
            kv (snd (snd (Flush L env (b, r)))) = kv r) \<and>
         (kv (snd (snd (Flush L env (b, r)))) \<noteq> kv r \<longrightarrow>
            FlushPeriod (collection b) \<le> time_Sub (clock_since env) t \<and>
            (minDuration < FlushPeriod (collection b) \<longrightarrow>
               FlushPeriod (collection b) - (clock_since env - clock_now env)
                 \<le> clock_now env - t))"
proof -
  have noop: "fst (Flush L env (b, r)) = None \<and> kv (snd (snd (Flush L env (b, r)))) = kv r"
    if "time_Sub (clock_since env) t < FlushPeriod (collection b)"
    using assms that
    by (auto simp: Flush_def Watch_def Flush_watched_def Flush_tx_def Flush_read_def Get_def
        send_ok Let_def)
  have bound: "FlushPeriod (collection b) - (clock_since env - clock_now env) \<le> clock_now env - t"
    if "FlushPeriod (collection b) \<le> time_Sub (clock_since env) t"
      and "minDuration < FlushPeriod (collection b)"
    using that by (simp add: time_Sub_def maxDuration_def minDuration_def split: if_splits)
  show ?thesis
    using noop bound by (metis not_le)
qed

theorem Flush_before_period_witness:
  "time_Sub (clock_since (readings (noon + 500000000) (noon + 500000000))) noon
     < FlushPeriod (collection logsBuffer) \<and>
   fst (Flush sampleTime (readings (noon + 500000000) (noon + 500000000))
          (logsBuffer, logsStore ''2019-03-01T12:00:00Z'' [''Zm9v''] [])) = None \<and>
   kv (snd (snd (Flush sampleTime (readings (noon + 500000000) (noon + 500000000))
                   (logsBuffer, logsStore ''2019-03-01T12:00:00Z'' [''Zm9v''] [])))) =
     kv (logsStore ''2019-03-01T12:00:00Z'' [''Zm9v''] []) \<and>
   kv (snd (snd firstTick)) \<noteq> kv (logsStore ''2019-03-01T12:00:00Z'' [] []) \<and>
   FlushPeriod (collection logsBuffer) - (noon + 1400000000 - (noon + 1000000000))
     \<le> noon + 1000000000 - noon"
proof -
  have changed: "kv (snd (snd firstTick)) \<noteq> kv (logsStore ''2019-03-01T12:00:00Z'' [] [])"
  proof
    assume "kv (snd (snd firstTick)) = kv (logsStore ''2019-03-01T12:00:00Z'' [] [])"
    then have "kv (snd (snd firstTick)) ''bulklog.logs.flushedAt'' =
        kv (logsStore ''2019-03-01T12:00:00Z'' [] []) ''bulklog.logs.flushedAt''"
      by simp
    then show False
      by (simp add: firstTick_def logsStore_def logsBuffer_eq readings_def logs_def
          Parse_sampleTime Format_sampleTime Flush_def Watch_def Flush_watched_def Flush_tx_def
          Flush_read_def Get_def LLen_def Set_def send_ok Let_def time_Sub_def maxDuration_def
          minDuration_def)
  qed
  show ?thesis
    using Flush_before_period [where r = "logsStore ''2019-03-01T12:00:00Z'' [''Zm9v''] []"
        and b = logsBuffer and L = sampleTime and s = "''2019-03-01T12:00:00Z''" and t = noon
        and env = "readings (noon + 500000000) (noon + 500000000)"]
      Flush_before_period [where r = "logsStore ''2019-03-01T12:00:00Z'' [] []"
        and b = logsBuffer and L = sampleTime and s = "''2019-03-01T12:00:00Z''" and t = noon
        and env = "readings (noon + 1000000000) (noon + 1400000000)"]
      changed
    by (simp add: firstTick_def logsStore_def logsBuffer_eq readings_def logs_def
        Parse_sampleTime time_Sub_def maxDuration_def minDuration_def)
qed

text \<open>
  C7 as it is written fails: the first call stores one second past noon, the second call
  finds the period passed at its second reading of the clock and stores 1.6 seconds past
  noon. Both return no error, and the two times, like the two readings at which the calls
  decided, lie 0.6 seconds apart, less than the period of one second.
\<close>

theorem Flush_cadence_counterexample:
  "fst firstTick = None \<and>
   kv (snd (snd firstTick)) (timeKey logsBuffer) = Some (RString ''2019-03-01T12:00:01Z'') \<and>
   flushedAt (fst (snd firstTick)) = noon + 1000000000 \<and>
   fst secondTick = None \<and>
   kv (snd (snd secondTick)) (timeKey logsBuffer) = Some (RString ''2019-03-01T12:00:01.6Z'') \<and>
   flushedAt (fst (snd secondTick)) = noon + 1600000000 \<and>
   flushedAt (fst (snd secondTick)) - flushedAt (fst (snd firstTick))
     < FlushPeriod (collection logsBuffer) \<and>
   (noon + 2000000000) - (noon + 1400000000) < FlushPeriod (collection logsBuffer)"
  by (simp add: secondTick_def firstTick_def logsStore_def logsBuffer_eq readings_def logs_def
      Parse_sampleTime Format_sampleTime Flush_def Watch_def Flush_watched_def Flush_tx_def
      Flush_read_def Get_def LLen_def Set_def send_ok Let_def time_Sub_def maxDuration_def
      minDuration_def)

section \<open>Flush: sealing a pipe\<close>

lemma HSet_ok_None:
  "faults r = [] \<Longrightarrow> kv r k = None \<Longrightarrow>
   HSet k f v r =
     (None, r\<lparr>history := history r @ [HSET k f], kv := (kv r)(k \<mapsto> RHash [f \<mapsto> v])\<rparr>)"
  by (simp add: HSet_def send_ok)

lemma HSet_ok_Hash:
  "faults r = [] \<Longrightarrow> kv r k = Some (RHash h) \<Longrightarrow>
   HSet k f v r =
     (None, r\<lparr>history := history r @ [HSET k f], kv := (kv r)(k \<mapsto> RHash (h(f \<mapsto> v)))\<rparr>)"
  by (simp add: HSet_def send_ok)

lemma HSetAll_hash:
  "faults r = [] \<Longrightarrow> kv r k = Some (RHash h) \<Longrightarrow>
   fst (HSetAll k fvs r) = None \<and>
   faults (snd (HSetAll k fvs r)) = [] \<and>
   kv (snd (HSetAll k fvs r)) = (kv r)(k \<mapsto> RHash (h ++ map_of (rev fvs)))"
proof (induction fvs arbitrary: r h)
  case Nil
  then show ?case by (simp add: fun_upd_idem)
next
  case (Cons fv fvs)
  obtain f v where fv: "fv = (f, v)" by (cases fv)
  let ?r1 = "r\<lparr>history := history r @ [HSET k f], kv := (kv r)(k \<mapsto> RHash (h(f \<mapsto> v)))\<rparr>"
  have step: "HSet k f v r = (None, ?r1)"
    using Cons.prems by (rule HSet_ok_Hash)
  have "faults ?r1 = []" "kv ?r1 k = Some (RHash (h(f \<mapsto> v)))"
    using Cons.prems by simp_all
  from Cons.IH [OF this] show ?case
    by (simp add: fv step map_add_def fun_eq_iff split: option.splits)
qed

lemma HSetAll_fresh:
  "faults r = [] \<Longrightarrow> kv r k = None \<Longrightarrow> fvs \<noteq> [] \<Longrightarrow>
   fst (HSetAll k fvs r) = None \<and>
   faults (snd (HSetAll k fvs r)) = [] \<and>
   kv (snd (HSetAll k fvs r)) = (kv r)(k \<mapsto> RHash (map_of (rev fvs)))"
proof (cases fvs)
  case Nil
  assume "fvs \<noteq> []" with Nil show ?thesis by simp
next
  case (Cons fv fvs')
  assume a: "faults r = []" "kv r k = None"
  obtain f v where fv: "fv = (f, v)" by (cases fv)
  let ?r1 = "r\<lparr>history := history r @ [HSET k f], kv := (kv r)(k \<mapsto> RHash [f \<mapsto> v])\<rparr>"
  have step: "HSet k f v r = (None, ?r1)"
    using a by (rule HSet_ok_None)
  have "faults ?r1 = []" "kv ?r1 k = Some (RHash [f \<mapsto> v])"
    using a by simp_all
  from HSetAll_hash [OF this, of fvs'] show ?thesis
    by (simp add: Cons fv step map_add_def fun_eq_iff split: option.splits)
qed

lemma map_of_rev_consumers:
  "map_of (rev (map (\<lambda>c. (c, v)) cs)) c = (if c \<in> set cs then Some v else None)"
  by (induction cs) (auto simp: map_add_def split: option.splits)

lemma newRedisPipe_ok:
  assumes "faults r = []" "kv r pk = None"
  shows "fst (newRedisPipe r pk fp rp t) = None \<and>
         faults (snd (newRedisPipe r pk fp rp t)) = [] \<and>
         kv (snd (newRedisPipe r pk fp rp t)) =
           (kv r)(pk \<mapsto> RHash [''iteration'' \<mapsto> HInt 0, ''startedAt'' \<mapsto> HTime t,
                                 ''flushPeriod'' \<mapsto> HDuration fp,
                                 ''retentionPeriod'' \<mapsto> HDuration rp])"
  using HSetAll_fresh [OF assms, of "[(''iteration'', HInt 0), (''startedAt'', HTime t),
          (''flushPeriod'', HDuration fp), (''retentionPeriod'', HDuration rp)]"]
  by (simp add: newRedisPipe_def fun_eq_iff)

lemma addRedisPipeConsumers_ok:
  assumes "faults r = []" "kv r pk = Some (RHash h)"
    and "h ''startedAt'' = Some (HTime t)" "h ''flushPeriod'' = Some (HDuration fp)"
    and "kv r (pk @ ''.consumers'') = None"
  shows "fst (addRedisPipeConsumers r pk cs) = None \<and>
         faults (snd (addRedisPipeConsumers r pk cs)) = [] \<and>
         kv (snd (addRedisPipeConsumers r pk cs)) =
           (if cs = [] then kv r
            else (kv r)(pk @ ''.consumers'' \<mapsto>
                   RHash (\<lambda>c. if c \<in> set cs then Some (HConsumer False (t + fp)) else None)))"
proof -
  let ?r2 = "r\<lparr>history := history r @ [HGET pk ''startedAt'', HGET pk ''flushPeriod'']\<rparr>"
  let ?fvs = "map (\<lambda>c. (c, HConsumer False (t + fp))) cs"
  have eq: "addRedisPipeConsumers r pk cs = HSetAll (pk @ ''.consumers'') ?fvs ?r2"
    using assms by (simp add: addRedisPipeConsumers_def HGet_def send_ok)
  show ?thesis
  proof (cases "cs = []")
    case True
    with eq have "addRedisPipeConsumers r pk cs = (None, ?r2)" by simp
    then show ?thesis using assms True by simp
  next
    case False
    then have ne: "?fvs \<noteq> []" by simp
    have "faults ?r2 = []" "kv ?r2 (pk @ ''.consumers'') = None"
      using assms by simp_all
    from HSetAll_fresh [OF this ne] show ?thesis
      using False by (simp add: eq map_of_rev_consumers [abs_def])
  qed
qed

lemma flushBuffer2RedisPipe_ok:
  assumes "faults r = []" "kv r bk = Some (RList xs)" "kv r (pk @ ''.buffer'') = None"
  shows "flushBuffer2RedisPipe r bk pk =
           (None, r\<lparr>history := history r @ [DRAIN bk (pk @ ''.buffer'')],
                    kv := (kv r)(pk @ ''.buffer'' \<mapsto> RList xs, bk := None)\<rparr>)"
  using assms by (simp add: flushBuffer2RedisPipe_def DrainListInto_def send_ok)

lemma Flush_seal_ok:
  assumes nf: "faults r = []"
    and buf: "kv r (bufferKey b) = Some (RList docs)"
    and pk: "pk = pipeKeyPrefix b @ ''.'' @ uuid_inner env"
    and fresh: "kv r pk = None" "kv r (pk @ ''.consumers'') = None" "kv r (pk @ ''.buffer'') = None"
  shows "fst (Flush_seal L env (b, r)) = None \<and>
         fst (snd (Flush_seal L env (b, r))) = b\<lparr>flushedAt := clock_now env\<rparr> \<and>
         kv (snd (snd (Flush_seal L env (b, r)))) =
           (if consumers b = [] then
              (kv r)(pk \<mapsto> RHash [''iteration'' \<mapsto> HInt 0, ''startedAt'' \<mapsto> HTime (clock_now env),
                                 ''flushPeriod'' \<mapsto> HDuration (FlushPeriod (collection b)),
                                 ''retentionPeriod'' \<mapsto> HDuration (RetentionPeriod (collection b))],
                      pk @ ''.buffer'' \<mapsto> RList docs,
                      bufferKey b := None,
                      timeKey b \<mapsto> RString (Format L (clock_now env)))
            else
              (kv r)(pk \<mapsto> RHash [''iteration'' \<mapsto> HInt 0, ''startedAt'' \<mapsto> HTime (clock_now env),
                                 ''flushPeriod'' \<mapsto> HDuration (FlushPeriod (collection b)),
                                 ''retentionPeriod'' \<mapsto> HDuration (RetentionPeriod (collection b))],
                      pk @ ''.consumers'' \<mapsto>
                        RHash (\<lambda>c. if c \<in> set (consumers b)
                          then Some (HConsumer False (clock_now env + FlushPeriod (collection b)))
                          else None),
                      pk @ ''.buffer'' \<mapsto> RList docs,
                      bufferKey b := None,
                      timeKey b \<mapsto> RString (Format L (clock_now env))))"
proof -
  let ?now = "clock_now env"
  let ?fp = "FlushPeriod (collection b)"
  let ?rp = "RetentionPeriod (collection b)"
  let ?h = "[''iteration'' \<mapsto> HInt 0, ''startedAt'' \<mapsto> HTime ?now,
            ''flushPeriod'' \<mapsto> HDuration ?fp, ''retentionPeriod'' \<mapsto> HDuration ?rp]"
  have d1: "pk \<noteq> bufferKey b" "pk @ ''.consumers'' \<noteq> bufferKey b" "pk @ ''.buffer'' \<noteq> bufferKey b"
    using buf fresh by auto
  have d2: "pk \<noteq> pk @ ''.consumers''" "pk \<noteq> pk @ ''.buffer''" "pk @ ''.consumers'' \<noteq> pk @ ''.buffer''"
    by simp_all
  obtain e1 r1 where s1: "newRedisPipe r pk ?fp ?rp ?now = (e1, r1)" by fastforce
  from newRedisPipe_ok [OF nf fresh(1), of ?fp ?rp ?now]
  have r1: "e1 = None" "faults r1 = []" "kv r1 = (kv r)(pk \<mapsto> RHash ?h)"
    by (simp_all add: s1)
  obtain e2 r2 where s2: "addRedisPipeConsumers r1 pk (consumers b) = (e2, r2)" by fastforce
  have "kv r1 pk = Some (RHash ?h)" "?h ''startedAt'' = Some (HTime ?now)"
    "?h ''flushPeriod'' = Some (HDuration ?fp)" "kv r1 (pk @ ''.consumers'') = None"
    using r1 fresh d2 by simp_all
  from addRedisPipeConsumers_ok [OF r1(2) this, of "consumers b"]
  have r2: "e2 = None" "faults r2 = []"
    "kv r2 = (if consumers b = [] then kv r1
            else (kv r1)(pk @ ''.consumers'' \<mapsto>
                   RHash (\<lambda>c. if c \<in> set (consumers b) then Some (HConsumer False (?now + ?fp)) else None)))"
    by (simp_all add: s2)
  have "kv r2 (bufferKey b) = Some (RList docs)" "kv r2 (pk @ ''.buffer'') = None"
    using r2 r1 buf fresh d1 d2 by (auto simp: fun_upd_def)
  from flushBuffer2RedisPipe_ok [OF r2(2) this]
  have s3: "flushBuffer2RedisPipe r2 (bufferKey b) pk =
     (None, r2\<lparr>history := history r2 @ [DRAIN (bufferKey b) (pk @ ''.buffer'')],
                    kv := (kv r2)(pk @ ''.buffer'' \<mapsto> RList docs, bufferKey b := None)\<rparr>)" .
  have unfold: "Flush_seal L env (b, r) =
     (case newRedisPipe r pk ?fp ?rp ?now of
        (Some e, tx1) \<Rightarrow> (Some (Errorf ''newRedisPipe.'' e), b, tx1)
      | (None, tx1) \<Rightarrow>
     (case addRedisPipeConsumers tx1 pk (consumers b) of
        (Some e, tx2) \<Rightarrow> (Some (Errorf ''addRedisPipeConsumers.'' e), b, tx2)
      | (None, tx2) \<Rightarrow>
     (case flushBuffer2RedisPipe tx2 (bufferKey b) pk of
        (Some e, tx3) \<Rightarrow> (Some (Errorf ''flushBuffer2RedisPipe.'' e), b, tx3)
      | (None, tx3) \<Rightarrow>
     (case Set (timeKey b) (Format L ?now) tx3 of
        (Some e, tx4) \<Rightarrow>
          (Some (Errorf (''(SET collection.flushedAt '' @ Format L ?now @ '').'') e), b, tx4)
      | (None, tx4) \<Rightarrow> (None, b\<lparr>flushedAt := ?now\<rparr>, tx4)))))"
    unfolding Flush_seal_def Let_def pk by simp
  show ?thesis
    using r1 r2 by (simp add: unfold s1 s2 s3 Set_ok)
qed

text \<open>
  C4: when no command fails, the period has passed since the time the store holds (or, for
  an empty text, since the field of the buffer), the buffer list holds the documents
  \<open>docs\<close>, at least one, and the keys of the new pipe \<open>pk\<close> are not in use, \<open>Flush\<close> returns
  no error and leaves: the metadata of the pipe with \<open>iteration\<close> 0 and \<open>startedAt\<close> \<open>now\<close>; for
  every consumer the entry \<open>{done: false, nextAttemptAt: now + FlushPeriod}\<close>; the sealed list
  of the pipe holding \<open>docs\<close> in the order of the buffer; no buffer list; the time key and the
  field \<open>flushedAt\<close> at \<open>now\<close>; and every other key as it was.
\<close>

theorem Flush_seals_buffer:
  assumes nf: "faults r = []"
    and tk: "kv r (timeKey b) = Some (RString s)"
    and t: "s = [] \<and> t = flushedAt b \<or> s \<noteq> [] \<and> Parse L s = Inr t"
    and period: "FlushPeriod (collection b) \<le> time_Sub (clock_since env) t"
    and buf: "kv r (bufferKey b) = Some (RList docs)" "docs \<noteq> []"
    and pk: "pk = pipeKeyPrefix b @ ''.'' @ uuid_inner env"
    and fresh: "kv r pk = None" "kv r (pk @ ''.consumers'') = None" "kv r (pk @ ''.buffer'') = None"
  shows "fst (Flush L env (b, r)) = None \<and>
         flushedAt (fst (snd (Flush L env (b, r)))) = clock_now env \<and>
         kv (snd (snd (Flush L env (b, r)))) pk =
           Some (RHash [''iteration'' \<mapsto> HInt 0,
                        ''startedAt'' \<mapsto> HTime (clock_now env),
                        ''flushPeriod'' \<mapsto> HDuration (FlushPeriod (collection b)),
                        ''retentionPeriod'' \<mapsto> HDuration (RetentionPeriod (collection b))]) \<and>
         kv (snd (snd (Flush L env (b, r)))) (pk @ ''.consumers'') =
           (if consumers b = [] then None
            else Some (RHash (\<lambda>c. if c \<in> set (consumers b)
                   then Some (HConsumer False (clock_now env + FlushPeriod (collection b)))
                   else None))) \<and>
         kv (snd (snd (Flush L env (b, r)))) (pk @ ''.buffer'') = Some (RList docs) \<and>
         kv (snd (snd (Flush L env (b, r)))) (bufferKey b) = None \<and>
         kv (snd (snd (Flush L env (b, r)))) (timeKey b) =
           Some (RString (Format L (clock_now env))) \<and>
         (\<forall>k. k \<notin> {pk, pk @ ''.consumers'', pk @ ''.buffer'', bufferKey b, timeKey b} \<longrightarrow>
              kv (snd (snd (Flush L env (b, r)))) k = kv r k)"
proof -
  let ?b1 = "b\<lparr>flushedAt := t\<rparr>"
  let ?r2 = "r\<lparr>history := history r @
               [WATCH (Flush_watched env b), GET (timeKey b), LLEN (bufferKey b)]\<rparr>"
  have b1: "snd (Flush_read L b s) = ?b1" "fst (Flush_read L b s) = None"
    using t by (auto simp: Flush_read_def)
  have eq: "Flush L env (b, r) =
      (case Flush_seal L env (?b1, ?r2) of
         (Some e, b', r') \<Rightarrow> (Some (Errorf ''WATCH.'' e), b', r')
       | (None, b', r') \<Rightarrow> (None, b', r'))"
    using nf tk t period buf
    by (auto simp: Flush_def Watch_def Flush_watched_def Flush_tx_def Flush_read_def Get_def
        LLen_def send_ok Let_def)
  have d: "pk \<noteq> bufferKey b" "pk @ ''.consumers'' \<noteq> bufferKey b" "pk @ ''.buffer'' \<noteq> bufferKey b"
    "pk \<noteq> timeKey b" "pk @ ''.consumers'' \<noteq> timeKey b" "pk @ ''.buffer'' \<noteq> timeKey b"
    "bufferKey b \<noteq> timeKey b"
    using buf tk fresh by auto
  have seal: "fst (Flush_seal L env (?b1, ?r2)) = None"
    "fst (snd (Flush_seal L env (?b1, ?r2))) = b\<lparr>flushedAt := clock_now env\<rparr>"
    "kv (snd (snd (Flush_seal L env (?b1, ?r2)))) =
       (if consumers b = [] then
          (kv r)(pk \<mapsto> RHash [''iteration'' \<mapsto> HInt 0, ''startedAt'' \<mapsto> HTime (clock_now env),
                             ''flushPeriod'' \<mapsto> HDuration (FlushPeriod (collection b)),
                             ''retentionPeriod'' \<mapsto> HDuration (RetentionPeriod (collection b))],
                  pk @ ''.buffer'' \<mapsto> RList docs,
                  bufferKey b := None,
                  timeKey b \<mapsto> RString (Format L (clock_now env)))
        else
          (kv r)(pk \<mapsto> RHash [''iteration'' \<mapsto> HInt 0, ''startedAt'' \<mapsto> HTime (clock_now env),
                             ''flushPeriod'' \<mapsto> HDuration (FlushPeriod (collection b)),
                             ''retentionPeriod'' \<mapsto> HDuration (RetentionPeriod (collection b))],
                  pk @ ''.consumers'' \<mapsto>
                    RHash (\<lambda>c. if c \<in> set (consumers b)
                      then Some (HConsumer False (clock_now env + FlushPeriod (collection b)))
                      else None),
                  pk @ ''.buffer'' \<mapsto> RList docs,
                  bufferKey b := None,
                  timeKey b \<mapsto> RString (Format L (clock_now env))))"
    using Flush_seal_ok [where r = ?r2 and b = ?b1 and docs = docs and pk = pk and env = env
        and L = L] nf buf pk fresh
    by (simp_all cong: if_cong)
  obtain x b' r' where res: "Flush_seal L env (?b1, ?r2) = (x, b', r')"
    by (cases "Flush_seal L env (?b1, ?r2)") auto
  have fl: "Flush L env (b, r) = (None, b', r')"
    using seal(1) by (simp add: eq res)
  have b': "b' = b\<lparr>flushedAt := clock_now env\<rparr>"
    using seal(2) by (simp add: res)
  have kv': "kv r' = kv (snd (snd (Flush_seal L env (?b1, ?r2))))"
    by (simp add: res)
  show ?thesis
    unfolding fl using d fresh by (simp add: b' kv' seal(3))
qed

theorem Flush_seals_buffer_witness:
  "FlushPeriod (collection logsBuffer) \<le>
     time_Sub (clock_since (readings (noon + 1000000000) (noon + 1000000000))) noon \<and>
   fst sealTick = None \<and>
   flushedAt (fst (snd sealTick)) = noon + 1000000000 \<and>
   kv (snd (snd sealTick)) ''bulklog.logs.pipes.f47ac10b-58cc-4372-a567-0e02b2c3d479'' =
     Some (RHash [''iteration'' \<mapsto> HInt 0,
                  ''startedAt'' \<mapsto> HTime (noon + 1000000000),
                  ''flushPeriod'' \<mapsto> HDuration 1000000000,
                  ''retentionPeriod'' \<mapsto> HDuration 10000000000]) \<and>
   kv (snd (snd sealTick))
      ''bulklog.logs.pipes.f47ac10b-58cc-4372-a567-0e02b2c3d479.consumers'' =
     Some (RHash (\<lambda>c. if c \<in> {''es'', ''s3''}
                      then Some (HConsumer False (noon + 1000000000 + 1000000000))
                      else None)) \<and>
   kv (snd (snd sealTick)) ''bulklog.logs.pipes.f47ac10b-58cc-4372-a567-0e02b2c3d479.buffer'' =
     Some (RList [''Zm9v'', ''YmFy'']) \<and>
   kv (snd (snd sealTick)) ''bulklog.logs.buffer'' = None \<and>
   kv (snd (snd sealTick)) ''bulklog.logs.flushedAt'' =
     Some (RString ''2019-03-01T12:00:01Z'')"
  using Flush_seals_buffer [where r = "logsStore ''2019-03-01T12:00:00Z'' [''Zm9v'', ''YmFy''] []"
      and b = logsBuffer and L = sampleTime and s = "''2019-03-01T12:00:00Z''" and t = noon
      and env = "readings (noon + 1000000000) (noon + 1000000000)"
      and docs = "[''Zm9v'', ''YmFy'']"
      and pk = "''bulklog.logs.pipes.f47ac10b-58cc-4372-a567-0e02b2c3d479''"]
  by (simp add: sealTick_def logsStore_def logsBuffer_eq readings_def logs_def
      Parse_sampleTime Format_sampleTime time_Sub_def maxDuration_def minDuration_def
      cong: if_cong)

section \<open>Flush: the watch set and the attempts\<close>

lemma watches_append [simp]: "watches (xs @ ys) = watches xs + watches ys"
  by (induction xs rule: watches.induct) simp_all














text \<open>
  C1, at a call that seals a pipe (\<open>sealTick\<close>). The call sends one \<^verbatim>\<open>WATCH\<close>, first of all
  its commands, for the buffer key, the time key and the three keys of the pipe named by the
  outer \<open>pipeID\<close>. The pipe it creates is named by the \<open>pipeID\<close> that the transaction
  declares anew: its metadata, consumers and buffer keys are in the store afterwards, were
  not there before, and are not in the watch set; the three pipe keys of the watch set are
  never created.
\<close>

theorem Flush_watch_set_misses_pipe:
  "fst sealTick = None \<and>
   hd (history (snd (snd sealTick))) =
     WATCH [''bulklog.logs.buffer'', ''bulklog.logs.flushedAt'',
            ''bulklog.logs.pipes.6ba7b810-9dad-41d1-80b4-00c04fd430c8'',
            ''bulklog.logs.pipes.6ba7b810-9dad-41d1-80b4-00c04fd430c8.consumers'',
            ''bulklog.logs.pipes.6ba7b810-9dad-41d1-80b4-00c04fd430c8.buffer''] \<and>
   watches (history (snd (snd sealTick))) = 1 \<and>
   kv (snd (snd sealTick)) ''bulklog.logs.pipes.f47ac10b-58cc-4372-a567-0e02b2c3d479'' \<noteq> None \<and>
   kv (snd (snd sealTick))
      ''bulklog.logs.pipes.f47ac10b-58cc-4372-a567-0e02b2c3d479.consumers'' \<noteq> None \<and>
   kv (snd (snd sealTick))
      ''bulklog.logs.pipes.f47ac10b-58cc-4372-a567-0e02b2c3d479.buffer'' =
     Some (RList [''Zm9v'', ''YmFy'']) \<and>
   ''bulklog.logs.pipes.f47ac10b-58cc-4372-a567-0e02b2c3d479''
     \<notin> set (Flush_watched (readings (noon + 1000000000) (noon + 1000000000)) logsBuffer) \<and>
   ''bulklog.logs.pipes.f47ac10b-58cc-4372-a567-0e02b2c3d479.consumers''
     \<notin> set (Flush_watched (readings (noon + 1000000000) (noon + 1000000000)) logsBuffer) \<and>
   ''bulklog.logs.pipes.f47ac10b-58cc-4372-a567-0e02b2c3d479.buffer''
     \<notin> set (Flush_watched (readings (noon + 1000000000) (noon + 1000000000)) logsBuffer) \<and>
   kv (snd (snd sealTick)) ''bulklog.logs.pipes.6ba7b810-9dad-41d1-80b4-00c04fd430c8'' = None \<and>
   kv (snd (snd sealTick))
      ''bulklog.logs.pipes.6ba7b810-9dad-41d1-80b4-00c04fd430c8.consumers'' = None \<and>
   kv (snd (snd sealTick))
      ''bulklog.logs.pipes.6ba7b810-9dad-41d1-80b4-00c04fd430c8.buffer'' = None"
  by (simp add: sealTick_def logsStore_def logsBuffer_eq readings_def logs_def
      Parse_sampleTime Format_sampleTime Flush_def Watch_def Flush_watched_def Flush_tx_def
      Flush_read_def Flush_seal_def newRedisPipe_def addRedisPipeConsumers_def
      flushBuffer2RedisPipe_def DrainListInto_def Get_def LLen_def Set_def HSet_def HGet_def
      send_ok Let_def time_Sub_def maxDuration_def minDuration_def)




section \<open>Append\<close>

lemma Append_ok:
  assumes "fst (Append g d (b, r)) = None"
  shows "(\<exists>buf. g d = Inr buf) \<and>
         kv (snd (Append g d (b, r))) =
           (kv r)(bufferKey b \<mapsto> RList (elements r (bufferKey b) @ [encoded g d]))"
  using assms
  by (auto simp: Append_def RPush_def send_def elements_def encoded_def Let_def
      split: sum.splits prod.splits option.splits list.splits rvalue.splits)

lemma Append_error:
  assumes "fst (Append g d (b, r)) = Some e"
  shows "kv (snd (Append g d (b, r))) = kv r \<and>
         (g d = Inl e \<or>
          (\<exists>buf e'. g d = Inr buf \<and>
             fst (RPush (bufferKey b) (EncodeToString buf) r) = Inl e' \<and>
             e = Errorf ''(RPUSH collection.buffer docBase64).'' e'))"
  using assms
  by (auto simp: Append_def RPush_def send_def Let_def
      split: sum.splits prod.splits option.splits list.splits rvalue.splits)

lemma Appends_ok:
  "fst (Appends g ds (b, r)) = None \<Longrightarrow>
   kv (snd (Appends g ds (b, r))) =
     (if ds = [] then kv r
      else (kv r)(bufferKey b \<mapsto> RList (elements r (bufferKey b) @ map (encoded g) ds)))"
proof (induction ds arbitrary: r)
  case Nil
  then show ?case by simp
next
  case (Cons d ds)
  obtain x r1 where a: "Append g d (b, r) = (x, r1)" by (cases "Append g d (b, r)") auto
  with Cons.prems have x: "x = None" by (cases x) simp_all
  from Append_ok [of g d b r] a x
  have r1: "kv r1 = (kv r)(bufferKey b \<mapsto> RList (elements r (bufferKey b) @ [encoded g d]))"
    by simp
  then have el: "elements r1 (bufferKey b) = elements r (bufferKey b) @ [encoded g d]"
    by (simp add: elements_def)
  from Cons.prems a x have "fst (Appends g ds (b, r1)) = None" by simp
  from Cons.IH [OF this] a x show ?case
    by (auto simp: r1 el fun_eq_iff)
qed

text \<open>
  C8: a call of \<open>Append\<close> that returns no error was given bytes by the encoder and leaves the
  store with the base64 text of these bytes as one more element at the end of the buffer
  list, every other key as it was; a call that returns an error leaves every key as it was,
  and the error is the encoder's or the wrapped error of the \<^verbatim>\<open>RPUSH\<close>; and after a run of
  calls that all return no error the buffer list holds what it held before, followed by the
  base64 texts of the documents in the order of the calls.
\<close>

theorem Append_pushes_tail:
  "(fst (Append g d (b, r)) = None \<longrightarrow>
      (\<exists>buf. g d = Inr buf \<and>
         kv (snd (Append g d (b, r))) =
           (kv r)(bufferKey b \<mapsto>
              RList (elements r (bufferKey b) @ [EncodeToString buf])))) \<and>
   (fst (Append g d (b, r)) = Some e \<longrightarrow>
      kv (snd (Append g d (b, r))) = kv r \<and>
      (g d = Inl e \<or>
       (\<exists>buf e'. g d = Inr buf \<and>
          fst (RPush (bufferKey b) (EncodeToString buf) r) = Inl e' \<and>
          e = Errorf ''(RPUSH collection.buffer docBase64).'' e'))) \<and>
   (fst (Appends g ds (b, r)) = None \<longrightarrow>
      kv (snd (Appends g ds (b, r))) =
        (if ds = [] then kv r
         else (kv r)(bufferKey b \<mapsto>
                RList (elements r (bufferKey b) @ map (encoded g) ds))))"
proof (intro conjI impI)
  assume ok: "fst (Append g d (b, r)) = None"
  from Append_ok [OF ok] obtain buf where buf: "g d = Inr buf" by auto
  then have "encoded g d = EncodeToString buf" by (simp add: encoded_def)
  with Append_ok [OF ok] buf
  show "\<exists>buf. g d = Inr buf \<and>
         kv (snd (Append g d (b, r))) =
           (kv r)(bufferKey b \<mapsto> RList (elements r (bufferKey b) @ [EncodeToString buf]))"
    by simp
next
  assume "fst (Append g d (b, r)) = Some e"
  from Append_error [OF this]
  show "kv (snd (Append g d (b, r))) = kv r"
    and "g d = Inl e \<or>
      (\<exists>buf e'. g d = Inr buf \<and>
          fst (RPush (bufferKey b) (EncodeToString buf) r) = Inl e' \<and>
          e = Errorf ''(RPUSH collection.buffer docBase64).'' e')"
    by simp_all
next
  assume "fst (Appends g ds (b, r)) = None"
  then show "kv (snd (Appends g ds (b, r))) =
        (if ds = [] then kv r
         else (kv r)(bufferKey b \<mapsto>
                RList (elements r (bufferKey b) @ map (encoded g) ds)))"
    by (rule Appends_ok)
qed

theorem Append_pushes_tail_witness:
  "fst (Append sampleGob byeDoc (logsBuffer, logsStore ''2019-03-01T12:00:00Z'' [''Zm9v''] []))
     = None \<and>
   kv (snd (Append sampleGob byeDoc
              (logsBuffer, logsStore ''2019-03-01T12:00:00Z'' [''Zm9v''] []))) =
     [''bulklog.logs.flushedAt'' \<mapsto> RString ''2019-03-01T12:00:00Z'',
      ''bulklog.logs.buffer'' \<mapsto> RList [''Zm9v'', EncodeToString (undefined byeDoc)]] \<and>
   fst (Append sampleGob byeDoc
          (logsBuffer,
           logsStore ''2019-03-01T12:00:00Z'' [''Zm9v''] [Some (RedisError ''EOF'')])) =
     Some (Errorf ''(RPUSH collection.buffer docBase64).'' (RedisError ''EOF'')) \<and>
   kv (snd (Append sampleGob byeDoc
              (logsBuffer,
               logsStore ''2019-03-01T12:00:00Z'' [''Zm9v''] [Some (RedisError ''EOF'')]))) =
     kv (logsStore ''2019-03-01T12:00:00Z'' [''Zm9v''] [Some (RedisError ''EOF'')]) \<and>
   fst (Appends sampleGob [hiDoc, byeDoc] (logsBuffer, emptyStore)) = None \<and>
   kv (snd (Appends sampleGob [hiDoc, byeDoc] (logsBuffer, emptyStore))) =
     [''bulklog.logs.buffer'' \<mapsto>
        RList [EncodeToString (undefined hiDoc), EncodeToString (undefined byeDoc)]]"
  using Append_pushes_tail [where g = sampleGob and d = byeDoc and b = logsBuffer
      and r = "logsStore ''2019-03-01T12:00:00Z'' [''Zm9v''] []" and ds = "[]"]
    Append_pushes_tail [where g = sampleGob and d = byeDoc and b = logsBuffer
      and r = "logsStore ''2019-03-01T12:00:00Z'' [''Zm9v''] [Some (RedisError ''EOF'')]"
      and e = "Errorf ''(RPUSH collection.buffer docBase64).'' (RedisError ''EOF'')"
      and ds = "[]"]
    Append_pushes_tail [where g = sampleGob and d = byeDoc and b = logsBuffer
      and r = emptyStore and ds = "[hiDoc, byeDoc]"]
  by (simp add: sampleGob_def logsStore_def logsBuffer_eq emptyStore_def elements_def
      encoded_def Append_def RPush_def send_def Let_def)

text \<open>
  The base64 texts of the test vectors of RFC 4648.
\<close>

lemma EncodeToString_vectors:
  "EncodeToString '''' = ''''"
  "EncodeToString ''f'' = ''Zg==''"
  "EncodeToString ''fo'' = ''Zm8=''"
  "EncodeToString ''foo'' = ''Zm9v''"
  "EncodeToString ''foob'' = ''Zm9vYg==''"
  "EncodeToString ''fooba'' = ''Zm9vYmE=''"
  "EncodeToString ''foobar'' = ''Zm9vYmFy''"
  by (simp_all add: enc_def encodeStd_def)

section \<open>NewDocument\<close>

lemma NewDocument_error:
  "(\<exists>e. NewDocument J env cn sn body = Inl e) \<longleftrightarrow>
     (\<exists>e. Unmarshal J body = Inl e) \<or>
     (\<exists>m e. Unmarshal J body = Inr m \<and> Marshal J m = Inl e)"
  by (auto simp: NewDocument_def Let_def split: sum.splits)

text \<open>
  C3, at the body \<^verbatim>\<open>null\<close>: the text is JSON and its value is not an object, and
  \<open>NewDocument\<close> returns a document, with the body \<^verbatim>\<open>null\<close>, and no error.
\<close>

theorem NewDocument_null:
  "NewDocument sampleJSON sampleDocEnv ''logs'' ''event'' ''null'' =
     Inr \<lparr>ID = ''9f1c2d3e-4b5a-4c6d-8e7f-0a1b2c3d4e5f'', PostedAt = noon,
          CollectionName = ''logs'', SchemaName = ''event'', Body = ''null''\<rparr>"
  by (simp add: NewDocument_def sampleJSON_def sampleDocEnv_def Let_def)



section \<open>The wire encoding of a document\<close>




























end
